theory Spec2Isabelle
  imports Complex_Main
begin

section \<open>JavaScript values\<close>

text \<open>
  A JavaScript string is the list of its UTF-16 code units, each given by its number.
  The Japanese literals of the sources are written out as code units; literals made of
  Basic Latin characters go through \<open>ascii\<close>.
\<close>

type_synonym jsstring = "nat list"

definition ascii :: "string \<Rightarrow> jsstring" where
  "ascii s = map of_char s"

text \<open>
  The documents read from Firestore are untyped (\<open>any\<close>) in the sources. A field of a
  document is modelled as absent (\<open>Undefined\<close>), \<open>Null\<close>, or a value of the type the
  collection's schema gives it; values of another type are outside the model.
\<close>

datatype 'a field = Undefined | Null | Val 'a

text \<open>The operator \<open>||\<close> on the three kinds of operand the sources use it with.\<close>

definition str_or :: "jsstring field \<Rightarrow> jsstring \<Rightarrow> jsstring" where
  "str_or v d = (case v of Val s \<Rightarrow> if s = [] then d else s | _ \<Rightarrow> d)"

definition num_or :: "rat field \<Rightarrow> rat \<Rightarrow> rat" where
  "num_or v d = (case v of Val x \<Rightarrow> if x = 0 then d else x | _ \<Rightarrow> d)"

definition arr_or :: "'a list field \<Rightarrow> 'a list \<Rightarrow> 'a list" where
  "arr_or v d = (case v of Val xs \<Rightarrow> xs | _ \<Rightarrow> d)"

text \<open>\<open>ToString\<close>, as applied by template literals, property keys and URI encoding.\<close>

definition ToString :: "jsstring field \<Rightarrow> jsstring" where
  "ToString v = (case v of Undefined \<Rightarrow> ascii ''undefined'' | Null \<Rightarrow> ascii ''null'' | Val s \<Rightarrow> s)"

text \<open>
  Numbers are exact rationals standing for the doubles of the program.
  \<open>Math.round\<close> rounds to the nearest integer, a half towards plus infinity.
\<close>

definition Math_round :: "rat \<Rightarrow> int" where
  "Math_round x = \<lfloor>x + 1 / 2\<rfloor>"

subsection \<open>String literals of the sources\<close>

text \<open>Party names: Jiyu-Minshuto, Rikken-Minshuto, Komeito, Nippon Ishin no Kai,
  Kokumin-Minshuto, Nihon Kyosanto, Reiwa Shinsengumi, Shaminto, Sanseito, Shakai-Minshuto.\<close>

abbreviation JiyuMinshuto :: jsstring where
  "JiyuMinshuto \<equiv> [0x81EA, 0x7531, 0x6C11, 0x4E3B, 0x515A]"

abbreviation RikkenMinshuto :: jsstring where
  "RikkenMinshuto \<equiv> [0x7ACB, 0x61B2, 0x6C11, 0x4E3B, 0x515A]"

abbreviation Komeito :: jsstring where
  "Komeito \<equiv> [0x516C, 0x660E, 0x515A]"

abbreviation NipponIshinNoKai :: jsstring where
  "NipponIshinNoKai \<equiv> [0x65E5, 0x672C, 0x7DAD, 0x65B0, 0x306E, 0x4F1A]"

abbreviation KokuminMinshuto :: jsstring where
  "KokuminMinshuto \<equiv> [0x56FD, 0x6C11, 0x6C11, 0x4E3B, 0x515A]"

abbreviation NihonKyosanto :: jsstring where
  "NihonKyosanto \<equiv> [0x65E5, 0x672C, 0x5171, 0x7523, 0x515A]"

abbreviation ReiwaShinsengumi :: jsstring where
  "ReiwaShinsengumi \<equiv> [0x308C, 0x3044, 0x308F, 0x65B0, 0x9078, 0x7D44]"

abbreviation Shaminto :: jsstring where
  "Shaminto \<equiv> [0x793E, 0x6C11, 0x515A]"

abbreviation Sanseito :: jsstring where
  "Sanseito \<equiv> [0x53C2, 0x653F, 0x515A]"

abbreviation ShakaiMinshuto :: jsstring where
  "ShakaiMinshuto \<equiv> [0x793E, 0x4F1A, 0x6C11, 0x4E3B, 0x515A]"

text \<open>The defaults of the policy conversion: "unknown title", "no description", "other",
  "under deliberation", "year 2023", "unknown".\<close>

abbreviation FumeiNaTitle :: jsstring where
  "FumeiNaTitle \<equiv> [0x4E0D, 0x660E, 0x306A, 0x30BF, 0x30A4, 0x30C8, 0x30EB]"

abbreviation SetsumeiNashi :: jsstring where
  "SetsumeiNashi \<equiv> [0x8AAC, 0x660E, 0x306A, 0x3057]"

abbreviation SonoTa :: jsstring where
  "SonoTa \<equiv> [0x305D, 0x306E, 0x4ED6]"

abbreviation ShingiChu :: jsstring where
  "ShingiChu \<equiv> [0x5BE9, 0x8B70, 0x4E2D]"

abbreviation Year2023 :: jsstring where
  "Year2023 \<equiv> [0x0032, 0x0030, 0x0032, 0x0033, 0x5E74]"

abbreviation Fumei :: jsstring where
  "Fumei \<equiv> [0x4E0D, 0x660E]"

text \<open>The tail of the generated party description ("... is a party founded on its policies
  and ideals.").\<close>

abbreviation DescriptionTail :: jsstring where
  "DescriptionTail \<equiv> [0x306E, 0x653F, 0x7B56, 0x3068, 0x7406, 0x5FF5, 0x306B, 0x57FA, 0x3065,
     0x3044, 0x305F, 0x653F, 0x515A, 0x3067, 0x3059, 0x3002]"

section \<open>Errors and the console\<close>

datatype error = FirestoreError jsstring

text \<open>
  One constructor for each console call of the sources: the warning of
  \<open>getPartyImagePath\<close>, the error of \<open>processPartiesData\<close>, and in
  \<open>fetchPoliciesWithFilterAndSort\<close> the warning for a cursor document that does not
  exist, the error of the cursor lookup and the error of the outer handler.
\<close>

datatype log_entry =
    WarnImageNotFound jsstring
  | ErrorPartiesFetch error
  | WarnLastDocumentNotFound jsstring
  | ErrorDocumentFetch error
  | ErrorPolicyFetch error

section \<open>dataUtils.ts\<close>

subsection \<open>getPartyColor\<close>

text \<open>
  The \<open>switch\<close> over the name: its \<open>case\<close> labels with the value each returns, and
  the \<open>default\<close> branch. The labels are compared with strict equality, so an argument
  that is not a string takes the default branch.
\<close>

definition getPartyColor_cases :: "(jsstring \<times> jsstring) list" where
  "getPartyColor_cases =
     [(JiyuMinshuto, ascii ''#555555''),
      (RikkenMinshuto, ascii ''#4361EE''),
      (Komeito, ascii ''#7209B7''),
      (NipponIshinNoKai, ascii ''#228B22''),
      (KokuminMinshuto, ascii ''#000080''),
      (NihonKyosanto, ascii ''#E63946''),
      (ReiwaShinsengumi, ascii ''#F72585''),
      (Shaminto, ascii ''#118AB2''),
      (Sanseito, ascii ''#FF4500'')]"

definition dataUtils_getPartyColor :: "jsstring field \<Rightarrow> jsstring" where
  "dataUtils_getPartyColor affiliation =
     (case affiliation of
        Val s \<Rightarrow> (case map_of getPartyColor_cases s of Some c \<Rightarrow> c | None \<Rightarrow> ascii ''#808080'')
      | Undefined \<Rightarrow> ascii ''#808080''
      | Null \<Rightarrow> ascii ''#808080'')"

subsection \<open>getPartyImagePath\<close>

text \<open>
  \<open>encodeURIComponent\<close>: the unreserved characters (letters, digits and
  \<open>- _ . ! ~ * ' ( )\<close>) are kept, every other code point is written as the percent-escaped
  octets of its UTF-8 encoding, and a surrogate without its partner raises URIError
  (\<open>None\<close>).
\<close>

definition uriUnreserved :: "nat \<Rightarrow> bool" where
  "uriUnreserved c \<longleftrightarrow>
     (65 \<le> c \<and> c \<le> 90) \<or> (97 \<le> c \<and> c \<le> 122) \<or> (48 \<le> c \<and> c \<le> 57) \<or>
     c \<in> set [45, 95, 46, 33, 126, 42, 39, 40, 41]"

definition hexDigit :: "nat \<Rightarrow> nat" where
  "hexDigit d = (if d < 10 then 48 + d else 55 + d)"

definition percentEscape :: "nat \<Rightarrow> jsstring" where
  "percentEscape octet = [37, hexDigit (octet div 16), hexDigit (octet mod 16)]"

definition utf8 :: "nat \<Rightarrow> nat list" where
  "utf8 cp =
     (if cp < 0x80 then [cp]
      else if cp < 0x800 then [0xC0 + cp div 64, 0x80 + cp mod 64]
      else if cp < 0x10000 then
        [0xE0 + cp div 4096, 0x80 + (cp div 64) mod 64, 0x80 + cp mod 64]
      else
        [0xF0 + cp div 262144, 0x80 + (cp div 4096) mod 64, 0x80 + (cp div 64) mod 64,
         0x80 + cp mod 64])"

definition isLeadSurrogate :: "nat \<Rightarrow> bool" where
  "isLeadSurrogate c \<longleftrightarrow> 0xD800 \<le> c \<and> c \<le> 0xDBFF"

definition isTrailSurrogate :: "nat \<Rightarrow> bool" where
  "isTrailSurrogate c \<longleftrightarrow> 0xDC00 \<le> c \<and> c \<le> 0xDFFF"

definition surrogatePair :: "nat \<Rightarrow> nat \<Rightarrow> nat" where
  "surrogatePair lead trail = 0x10000 + (lead - 0xD800) * 0x400 + (trail - 0xDC00)"

definition escapeCodePoint :: "nat \<Rightarrow> jsstring" where
  "escapeCodePoint cp = concat (map percentEscape (utf8 cp))"

fun encodeURIComponent :: "jsstring \<Rightarrow> jsstring option" where
  "encodeURIComponent [] = Some []"
| "encodeURIComponent [c] =
     (if uriUnreserved c then Some [c]
      else if isLeadSurrogate c \<or> isTrailSurrogate c then None
      else Some (escapeCodePoint c))"
| "encodeURIComponent (c # d # s) =
     (if uriUnreserved c then map_option ((#) c) (encodeURIComponent (d # s))
      else if isLeadSurrogate c then
        (if isTrailSurrogate d
         then map_option ((@) (escapeCodePoint (surrogatePair c d))) (encodeURIComponent s)
         else None)
      else if isTrailSurrogate c then None
      else map_option ((@) (escapeCodePoint c)) (encodeURIComponent (d # s)))"

text \<open>The path and the warnings written to the console (one, in the \<open>catch\<close> branch).\<close>

definition getPartyImagePath :: "jsstring field \<Rightarrow> jsstring \<times> log_entry list" where
  "getPartyImagePath partyName =
     (case encodeURIComponent (ToString partyName) of
        Some encoded \<Rightarrow> (ascii ''/cm_parly_images/'' @ encoded @ ascii ''.jpg'', [])
      | None \<Rightarrow> (ascii ''/api/placeholder/80/80'', [WarnImageNotFound (ToString partyName)]))"

subsection \<open>processPartiesData and getPartyById\<close>

text \<open>A document of the \<open>parties\<close> collection: \<open>doc.id\<close> and the fields of
  \<open>doc.data()\<close> that the code reads.\<close>

record party_data =
  data_name :: "jsstring field"
  supportCount :: "rat field"
  oppositionCount :: "rat field"
  memberCount :: "rat field"
  majorPolicies :: "jsstring list field"
  overview :: "jsstring field"

record party_snapshot =
  party_doc_id :: jsstring
  party_doc_data :: party_data

record Party =
  party_id :: jsstring
  name :: "jsstring field"
  color :: jsstring
  party_supportRate :: int
  party_opposeRate :: int
  party_totalVotes :: rat
  members :: rat
  keyPolicies :: "jsstring list"
  party_description :: jsstring
  image :: jsstring

text \<open>The callback of \<open>partiesSnapshot.docs.map\<close>, with the console output of the image
  path lookup.\<close>

definition toParty :: "party_snapshot \<Rightarrow> Party \<times> log_entry list" where
  "toParty doc =
     (let data = party_doc_data doc;
          partyName = data_name data;
          totalVotes = num_or (supportCount data) 0 + num_or (oppositionCount data) 0;
          supportRate =
            (if totalVotes > 0
             then Math_round (num_or (supportCount data) 0 / totalVotes * 100)
             else 50);
          path = getPartyImagePath partyName
      in (\<lparr> party_id = party_doc_id doc,
            name = partyName,
            color = dataUtils_getPartyColor partyName,
            party_supportRate = supportRate,
            party_opposeRate = 100 - supportRate,
            party_totalVotes = (if totalVotes = 0 then 0 else totalVotes),
            members = num_or (memberCount data) 0,
            keyPolicies = arr_or (majorPolicies data) [],
            party_description = str_or (overview data) (ToString partyName @ DescriptionTail),
            image = fst path \<rparr>,
          snd path))"

text \<open>
  The module state: the cache \<open>cachedParties\<close> (\<open>None\<close> for \<open>null\<close>) and the console.
  \<open>fetches\<close> counts the calls of \<open>getDocs\<close> on the \<open>parties\<close> collection; the
  database is the function that gives the outcome of the k-th such call, an error or the
  documents of the snapshot.
\<close>

record module_state =
  cachedParties :: "Party list option"
  console :: "log_entry list"
  fetches :: nat

type_synonym parties_collection = "nat \<Rightarrow> error + party_snapshot list"

definition processPartiesData :: "parties_collection \<Rightarrow> module_state \<Rightarrow> Party list \<times> module_state" where
  "processPartiesData getDocs st =
     (case cachedParties st of
        Some cached \<Rightarrow> (cached, st)
      | None \<Rightarrow>
          (case getDocs (fetches st) of
             Inr docs \<Rightarrow>
               (let converted = map toParty docs;
                    parties = map fst converted
                in (parties,
                    st\<lparr> cachedParties := Some parties,
                        console := console st @ concat (map snd converted),
                        fetches := Suc (fetches st) \<rparr>))
           | Inl err \<Rightarrow>
               ([], st\<lparr> console := console st @ [ErrorPartiesFetch err],
                        fetches := Suc (fetches st) \<rparr>)))"

definition getPartyById :: "parties_collection \<Rightarrow> jsstring \<Rightarrow> module_state \<Rightarrow> Party option \<times> module_state" where
  "getPartyById getDocs ident st =
     (let st' = (if cachedParties st = None then snd (processPartiesData getDocs st) else st)
      in (find (\<lambda>party. party_id party = ident)
            (case cachedParties st' of Some cached \<Rightarrow> cached | None \<Rightarrow> []),
          st'))"

text \<open>The state of a freshly loaded module.\<close>

definition initial_state :: module_state where
  "initial_state = \<lparr> cachedParties = None, console = [], fetches = 0 \<rparr>"

section \<open>policyService.ts\<close>

subsection \<open>getPartyColor\<close>

text \<open>
  The table \<open>partyColors\<close> is an object literal, so reading \<open>partyColors[partyName]\<close>
  finds an own property of that name, or else a member that every object inherits from
  \<open>Object.prototype\<close> (a function, or for \<open>__proto__\<close> the prototype itself; all of
  them truthy), or else nothing. The result of the function is therefore a string or such
  an inherited member.
\<close>

datatype js_any = JsString jsstring | ObjectPrototypeMember jsstring

definition partyColors :: "(jsstring \<times> jsstring) list" where
  "partyColors =
     [(JiyuMinshuto, ascii ''#E60012''),
      (RikkenMinshuto, ascii ''#FFD900''),
      (NipponIshinNoKai, ascii ''#FF4500''),
      (Komeito, ascii ''#00A0E9''),
      (KokuminMinshuto, ascii ''#009944''),
      (NihonKyosanto, ascii ''#A40000''),
      (ReiwaShinsengumi, ascii ''#800080''),
      (ShakaiMinshuto, ascii ''#800000'')]"

definition objectPrototypeKeys :: "jsstring list" where
  "objectPrototypeKeys =
     [ascii ''constructor'', ascii ''hasOwnProperty'', ascii ''isPrototypeOf'',
      ascii ''propertyIsEnumerable'', ascii ''toLocaleString'', ascii ''toString'',
      ascii ''valueOf'', ascii ''__proto__'', ascii ''__defineGetter__'',
      ascii ''__defineSetter__'', ascii ''__lookupGetter__'', ascii ''__lookupSetter__'']"

definition policyService_getPartyColor :: "jsstring field \<Rightarrow> js_any" where
  "policyService_getPartyColor partyName =
     (let key = ToString partyName
      in case map_of partyColors key of
           Some c \<Rightarrow> JsString (str_or (Val c) (ascii ''#808080''))
         | None \<Rightarrow>
             (if key \<in> set objectPrototypeKeys then ObjectPrototypeMember key
              else JsString (ascii ''#808080'')))"

subsection \<open>convertToPolicyObject\<close>

record party_claim_data =
  PartyName :: "jsstring field"
  Claims :: "jsstring field"

record policy_data =
  Title :: "jsstring field"
  Description :: "jsstring field"
  AffectedFields :: "jsstring list field"
  Status :: "jsstring field"
  ProposedDate :: "jsstring field"
  SupportRate :: "rat field"
  NonSupportRate :: "rat field"
  data_totalCommentCount :: "rat field"
  KeyPoints :: "jsstring list field"
  EconomicImpact :: "jsstring field"
  LifeImpact :: "jsstring field"
  PoliticalParties :: "party_claim_data list field"

datatype trend = Up | Down | NoTrend

record political_party =
  partyName :: "jsstring field"
  claims :: "jsstring field"

record proposing_party =
  proposing_name :: "jsstring field"
  proposing_color :: js_any

record Policy =
  totalCommentCount :: "rat field"
  policy_id :: jsstring
  title :: jsstring
  description :: jsstring
  category :: jsstring
  status :: jsstring
  proposedDate :: jsstring
  supportRate :: int
  opposeRate :: int
  totalVotes :: rat
  trending :: "trend field"
  proposingParty :: proposing_party
  affectedFields :: "jsstring list"
  keyPoints :: "jsstring list"
  economicImpact :: jsstring
  lifeImpact :: jsstring
  politicalParties :: "political_party list"

text \<open>Reading an array at an index (\<open>Undefined\<close> out of range), and \<open>?.[0]\<close>.\<close>

definition at_index :: "'a list \<Rightarrow> int \<Rightarrow> 'a field" where
  "at_index xs i = (if 0 \<le> i \<and> nat i < length xs then Val (xs ! nat i) else Undefined)"

definition optional_first :: "'a list field \<Rightarrow> 'a field" where
  "optional_first v = (case v of Val xs \<Rightarrow> at_index xs 0 | _ \<Rightarrow> Undefined)"

definition trendOptions :: "trend list" where
  "trendOptions = [Up, Down, NoTrend]"

text \<open>
  \<open>random\<close> is the number that \<open>Math.random()\<close> returns if the conversion asks for
  one (a support rate from 40 to 60); \<open>Math.random\<close> gives numbers from 0 up to but
  excluding 1.
\<close>

definition convertToPolicyObject :: "rat \<Rightarrow> jsstring \<Rightarrow> policy_data \<Rightarrow> Policy" where
  "convertToPolicyObject random ident data =
     (let supportRate' = num_or (SupportRate data) 50;
          opposeRate' = num_or (NonSupportRate data) 50;
          totalVotes' = supportRate' + opposeRate';
          normalizedSupportRate =
            (if totalVotes' > 0 then Math_round (supportRate' / totalVotes' * 100) else 50);
          normalizedOpposeRate =
            (if totalVotes' > 0 then Math_round (opposeRate' / totalVotes' * 100) else 50);
          trending' =
            (if normalizedSupportRate > 60 then Val Up
             else if normalizedSupportRate < 40 then Val Down
             else at_index trendOptions \<lfloor>random * 3\<rfloor>);
          politicalParties' =
            arr_or
              (case PoliticalParties data of
                 Val ps \<Rightarrow>
                   Val (map (\<lambda>party. \<lparr> partyName = PartyName party, claims = Claims party \<rparr>) ps)
               | Undefined \<Rightarrow> Undefined
               | Null \<Rightarrow> Undefined)
              [];
          proposingParty' =
            (case politicalParties' of
               first # _ \<Rightarrow>
                 \<lparr> proposing_name = partyName first,
                   proposing_color = policyService_getPartyColor (partyName first) \<rparr>
             | [] \<Rightarrow>
                 \<lparr> proposing_name = Val Fumei,
                   proposing_color = JsString (ascii ''#808080'') \<rparr>)
      in \<lparr> totalCommentCount = data_totalCommentCount data,
           policy_id = ident,
           title = str_or (Title data) FumeiNaTitle,
           description = str_or (Description data) SetsumeiNashi,
           category = str_or (optional_first (AffectedFields data)) SonoTa,
           status = str_or (Status data) ShingiChu,
           proposedDate = str_or (ProposedDate data) Year2023,
           supportRate = normalizedSupportRate,
           opposeRate = normalizedOpposeRate,
           totalVotes = totalVotes',
           trending = trending',
           proposingParty = proposingParty',
           affectedFields = arr_or (AffectedFields data) [],
           keyPoints = arr_or (KeyPoints data) [],
           economicImpact = str_or (EconomicImpact data) [],
           lifeImpact = str_or (LifeImpact data) [],
           politicalParties = politicalParties' \<rparr>)"

subsection \<open>fetchPoliciesWithFilterAndSort\<close>

record policy_snapshot =
  policy_doc_id :: jsstring
  policy_doc_data :: policy_data

datatype direction = Asc | Desc

datatype where_op = ArrayContains | Equals

text \<open>The query constraints the function builds: \<open>where\<close>, \<open>orderBy\<close>,
  \<open>startAfter\<close> and \<open>limit\<close>.\<close>

datatype query_constraint =
    Where jsstring where_op jsstring
  | OrderBy jsstring direction
  | StartAfter policy_snapshot
  | Limit int

record policy_page =
  policies :: "Policy list"
  lastDocumentId :: "jsstring option"
  hasMore :: bool

text \<open>
  String operations. \<open>trim\<close> removes the white space and line terminators of
  ECMAScript at both ends; \<open>toLowerCase\<close> is modelled on the Basic Latin letters and
  leaves every other code unit as it is; \<open>includes_js\<close> (the method \<open>includes\<close>) looks for a contiguous occurrence.
\<close>

definition isWhiteSpace :: "nat \<Rightarrow> bool" where
  "isWhiteSpace c \<longleftrightarrow>
     c \<in> set [0x09, 0x0A, 0x0B, 0x0C, 0x0D, 0x20, 0xA0, 0x1680, 0x2028, 0x2029, 0x202F,
       0x205F, 0x3000, 0xFEFF] \<or> (0x2000 \<le> c \<and> c \<le> 0x200A)"

definition trim :: "jsstring \<Rightarrow> jsstring" where
  "trim s = rev (dropWhile isWhiteSpace (rev (dropWhile isWhiteSpace s)))"

definition toLowerCase :: "jsstring \<Rightarrow> jsstring" where
  "toLowerCase s = map (\<lambda>c. if 65 \<le> c \<and> c \<le> 90 then c + 32 else c) s"

fun startsWith :: "jsstring \<Rightarrow> jsstring \<Rightarrow> bool" where
  "startsWith s [] = True"
| "startsWith [] (c # t) = False"
| "startsWith (d # s) (c # t) = (d = c \<and> startsWith s t)"

fun includes_js :: "jsstring \<Rightarrow> jsstring \<Rightarrow> bool" where
  "includes_js [] t = (t = [])"
| "includes_js (d # s) t = (startsWith (d # s) t \<or> includes_js s t)"

text \<open>The \<open>switch\<close> over the sort method, with the initial values as the default.\<close>

definition sortOrder :: "jsstring \<Rightarrow> jsstring \<times> direction" where
  "sortOrder sortMethod =
     (if sortMethod = ascii ''supportDesc'' then (ascii ''SupportRate'', Desc)
      else if sortMethod = ascii ''supportAsc'' then (ascii ''SupportRate'', Asc)
      else if sortMethod = ascii ''opposeDesc'' then (ascii ''NonSupportRate'', Desc)
      else (ascii ''SupportRate'', Desc))"

text \<open>
  The cursor: when \<open>lastDocumentId\<close> is given and not empty, the document is looked up;
  a document that exists adds \<open>startAfter\<close>, one that does not is warned about, and an
  error of the lookup is caught and logged. \<open>getDoc\<close> gives an error or the snapshot,
  \<open>None\<close> when \<open>exists()\<close> is false.
\<close>

definition resolveCursor ::
  "(jsstring \<Rightarrow> error + policy_snapshot option) \<Rightarrow> jsstring option \<Rightarrow>
   query_constraint list \<times> log_entry list" where
  "resolveCursor getDoc lastId =
     (case lastId of
        None \<Rightarrow> ([], [])
      | Some ident \<Rightarrow>
          (if ident = [] then ([], [])
           else
             (case getDoc ident of
                Inr (Some lastDoc) \<Rightarrow> ([StartAfter lastDoc], [])
              | Inr None \<Rightarrow> ([], [WarnLastDocumentNotFound ident])
              | Inl docError \<Rightarrow> ([], [ErrorDocumentFetch docError]))))"

definition buildConditions ::
  "jsstring \<Rightarrow> jsstring \<Rightarrow> jsstring \<Rightarrow> query_constraint list \<Rightarrow> int \<Rightarrow> query_constraint list" where
  "buildConditions categoryFilter partyFilter sortMethod cursor limitCount =
     (if categoryFilter \<noteq> ascii ''all''
      then [Where (ascii ''AffectedFields'') ArrayContains categoryFilter] else []) @
     (if partyFilter \<noteq> ascii ''all''
      then [Where (ascii ''name'') Equals partyFilter] else []) @
     [OrderBy (fst (sortOrder sortMethod)) (snd (sortOrder sortMethod))] @
     cursor @
     [Limit limitCount]"

definition matchesSearch :: "jsstring \<Rightarrow> Policy \<Rightarrow> bool" where
  "matchesSearch searchTerm policy =
     (let lowerSearchTerm = toLowerCase searchTerm
      in includes_js (toLowerCase (title policy)) lowerSearchTerm \<or>
         includes_js (toLowerCase (description policy)) lowerSearchTerm)"

text \<open>
  The function, with the console it writes to. \<open>getDocs\<close> runs the query built from the
  constraints and gives an error or the documents of the snapshot; an error raised while
  the query is built is an error of \<open>getDocs\<close> here. \<open>random k\<close> is the number
  \<open>Math.random()\<close> returns during the conversion of document \<open>k\<close>. An omitted
  \<open>searchTerm\<close> is the empty string and an omitted \<open>limitCount\<close> is 5.
\<close>

definition fetchPoliciesWithFilterAndSort ::
  "(jsstring \<Rightarrow> error + policy_snapshot option) \<Rightarrow>
   (query_constraint list \<Rightarrow> error + policy_snapshot list) \<Rightarrow>
   (nat \<Rightarrow> rat) \<Rightarrow>
   jsstring \<Rightarrow> jsstring \<Rightarrow> jsstring \<Rightarrow> jsstring \<Rightarrow> jsstring option \<Rightarrow> int \<Rightarrow>
   log_entry list \<Rightarrow> (error + policy_page) \<times> log_entry list" where
  "fetchPoliciesWithFilterAndSort getDoc getDocs random
       categoryFilter partyFilter sortMethod searchTerm lastId limitCount out =
     (let cursor = resolveCursor getDoc lastId;
          out' = out @ snd cursor;
          conditions = buildConditions categoryFilter partyFilter sortMethod (fst cursor) limitCount
      in case getDocs conditions of
           Inl err \<Rightarrow> (Inl err, out' @ [ErrorPolicyFetch err])
         | Inr docs \<Rightarrow>
             (let converted =
                    map (\<lambda>(k, doc).
                           convertToPolicyObject (random k) (policy_doc_id doc) (policy_doc_data doc))
                      (enumerate 0 docs);
                  found =
                    (if trim searchTerm \<noteq> [] then filter (matchesSearch searchTerm) converted
                     else converted)
              in (Inr \<lparr> policies = found,
                       lastDocumentId =
                         (if docs = [] then None else Some (policy_doc_id (last docs))),
                       hasMore = (int (length found) = limitCount) \<rparr>,
                  out')))"

section \<open>AppContent.tsx: the route table\<close>

datatype element = Navigate jsstring | LoginPage | PartyAdminLayout

record route =
  route_path :: jsstring
  route_element :: element

text \<open>
  Modelled from the spec: \<open>ProtectedAdminRoute\<close> (components/auth/ProtectedAdminRoute) is
  not among the sources. The spec describes it as an authentication check that gates the
  admin layout, with an unauthenticated visit resolving to login; \<open>authenticated\<close> is the
  state of the authentication provider.
\<close>

definition ProtectedAdminRoute :: "bool \<Rightarrow> element \<Rightarrow> element" where
  "ProtectedAdminRoute authenticated children =
     (if authenticated then children else Navigate (ascii ''/admin/login''))"

text \<open>The \<open>Route\<close> children of \<open>Routes\<close>, in the order of the source.\<close>

definition AppContent :: "bool \<Rightarrow> route list" where
  "AppContent authenticated =
     [\<lparr> route_path = ascii ''/'', route_element = Navigate (ascii ''/admin/login'') \<rparr>,
      \<lparr> route_path = ascii ''/admin/login'', route_element = LoginPage \<rparr>,
      \<lparr> route_path = ascii ''/admin/party/:partyId/*'',
        route_element = ProtectedAdminRoute authenticated PartyAdminLayout \<rparr>,
      \<lparr> route_path = ascii ''/admin'', route_element = Navigate (ascii ''/admin/login'') \<rparr>,
      \<lparr> route_path = ascii ''*'', route_element = Navigate (ascii ''/'') \<rparr>]"

subsection \<open>Route matching\<close>

text \<open>
  How \<open>Routes\<close> of react-router chooses a route: the routes are ranked by the score of
  their paths (a static segment counts 10, a parameter 3, an empty segment 1, a splat
  costs 2, plus the number of segments; equal scores keep the order of the table), and the
  first route in that order whose path matches the whole pathname is rendered. Matching
  ignores the case of letters and trailing slashes, a parameter stands for one segment
  that is not empty, and a final splat for any rest.
\<close>

fun split_slash :: "jsstring \<Rightarrow> jsstring list" where
  "split_slash [] = [[]]"
| "split_slash (c # s) =
     (if c = 47 then [] # split_slash s
      else (case split_slash s of seg # segs \<Rightarrow> (c # seg) # segs | [] \<Rightarrow> [[c]]))"

definition isWordChar :: "nat \<Rightarrow> bool" where
  "isWordChar c \<longleftrightarrow>
     (65 \<le> c \<and> c \<le> 90) \<or> (97 \<le> c \<and> c \<le> 122) \<or> (48 \<le> c \<and> c \<le> 57) \<or> c = 95 \<or> c = 45"

definition isParamSegment :: "jsstring \<Rightarrow> bool" where
  "isParamSegment seg = (case seg of c # rest \<Rightarrow> c = 58 \<and> rest \<noteq> [] \<and> list_all isWordChar rest | [] \<Rightarrow> False)"

definition isSplat :: "jsstring \<Rightarrow> bool" where
  "isSplat seg = (seg = [42])"

definition computeScore :: "jsstring \<Rightarrow> int" where
  "computeScore p =
     (let segments = split_slash p;
          initialScore = int (length segments) + (if list_ex isSplat segments then - 2 else 0)
      in initialScore +
         sum_list
           (map (\<lambda>seg. if isParamSegment seg then 3 else if seg = [] then 1 else 10)
              (filter (\<lambda>seg. \<not> isSplat seg) segments)))"

definition rankRouteBranches :: "route list \<Rightarrow> route list" where
  "rankRouteBranches rs = sort_key (\<lambda>r. - computeScore (route_path r)) rs"

datatype segment_pattern = Static jsstring | Param

text \<open>The segments a path asks for, and whether it ends in a splat.\<close>

definition compilePath :: "jsstring \<Rightarrow> segment_pattern list \<times> bool" where
  "compilePath p =
     (let splat = (p \<noteq> [] \<and> last p = 42);
          body = rev (dropWhile (\<lambda>c. c = 47) (if splat then tl (rev p) else rev p))
      in (map (\<lambda>seg. if isParamSegment seg then Param else Static seg)
            (filter (\<lambda>seg. seg \<noteq> []) (split_slash body)),
          splat))"

fun matchSegments :: "segment_pattern list \<Rightarrow> bool \<Rightarrow> jsstring list \<Rightarrow> bool" where
  "matchSegments [] splat segs = (splat \<or> list_all (\<lambda>seg. seg = []) segs)"
| "matchSegments (p # ps) splat [] = False"
| "matchSegments (p # ps) splat (seg # segs) =
     ((case p of Static lit \<Rightarrow> toLowerCase seg = toLowerCase lit | Param \<Rightarrow> seg \<noteq> []) \<and>
      matchSegments ps splat segs)"

definition matchPath :: "jsstring \<Rightarrow> jsstring \<Rightarrow> bool" where
  "matchPath pattern pathname =
     (case pathname of
        [] \<Rightarrow> False
      | c # rest \<Rightarrow>
          c = 47 \<and> matchSegments (fst (compilePath pattern)) (snd (compilePath pattern)) (split_slash rest))"

definition matchRoutes :: "route list \<Rightarrow> jsstring \<Rightarrow> route option" where
  "matchRoutes rs pathname =
     find (\<lambda>r. matchPath (route_path r) (if pathname = [] then ascii ''/'' else pathname))
       (rankRouteBranches rs)"

subsection \<open>Following the redirects\<close>

datatype page = LoginPageView | PartyAdminLayoutView | NothingRendered

text \<open>
  What is on screen after visiting a pathname: the matched element is rendered, and a
  \<open>Navigate\<close> element replaces the location and the table is consulted again. The
  first argument bounds the number of locations visited; \<open>None\<close> means the bound was
  reached.
\<close>

fun resolve :: "nat \<Rightarrow> bool \<Rightarrow> jsstring \<Rightarrow> page option" where
  "resolve 0 authenticated pathname = None"
| "resolve (Suc n) authenticated pathname =
     (case matchRoutes (AppContent authenticated) pathname of
        None \<Rightarrow> Some NothingRendered
      | Some r \<Rightarrow>
          (case route_element r of
             Navigate to \<Rightarrow> resolve n authenticated to
           | LoginPage \<Rightarrow> Some LoginPageView
           | PartyAdminLayout \<Rightarrow> Some PartyAdminLayoutView))"

section \<open>Concrete documents and databases\<close>

text \<open>Inputs at which the theorems below are evaluated.\<close>

definition unavailable :: error where
  "unavailable = FirestoreError (ascii ''unavailable'')"

definition failing_collection :: parties_collection where
  "failing_collection k = Inl unavailable"

definition empty_collection :: parties_collection where
  "empty_collection k = Inr []"

definition komeito_snapshot :: party_snapshot where
  "komeito_snapshot =
     \<lparr> party_doc_id = ascii ''p1'',
       party_doc_data =
         \<lparr> data_name = Val Komeito, supportCount = Val 3, oppositionCount = Val 1,
           memberCount = Undefined, majorPolicies = Undefined, overview = Val [] \<rparr> \<rparr>"

definition one_party_collection :: parties_collection where
  "one_party_collection k = Inr [komeito_snapshot]"


definition abc_snapshot :: policy_snapshot where
  "abc_snapshot =
     \<lparr> policy_doc_id = ascii ''p1'',
       policy_doc_data =
         \<lparr> Title = Val (ascii ''abc''), Description = Val (ascii ''def''),
           AffectedFields = Undefined, Status = Undefined, ProposedDate = Undefined,
           SupportRate = Val 1, NonSupportRate = Val 7, data_totalCommentCount = Undefined,
           KeyPoints = Undefined, EconomicImpact = Undefined, LifeImpact = Undefined,
           PoliticalParties = Undefined \<rparr> \<rparr>"

definition no_document :: "jsstring \<Rightarrow> error + policy_snapshot option" where
  "no_document ident = Inr None"

definition failing_document :: "jsstring \<Rightarrow> error + policy_snapshot option" where
  "failing_document ident = Inl unavailable"

definition one_policy_query :: "query_constraint list \<Rightarrow> error + policy_snapshot list" where
  "one_policy_query conditions = Inr [abc_snapshot]"

definition failing_query :: "query_constraint list \<Rightarrow> error + policy_snapshot list" where
  "failing_query conditions = Inl unavailable"

definition no_random :: "nat \<Rightarrow> rat" where
  "no_random k = 0"

section \<open>Properties of the colour tables\<close>

lemma dataUtils_getPartyColor_listed:
  assumes "(s, c) \<in> set getPartyColor_cases"
  shows "dataUtils_getPartyColor (Val s) = c"
proof -
  have "distinct (map fst getPartyColor_cases)"
    by (simp add: getPartyColor_cases_def)
  then have "map_of getPartyColor_cases s = Some c"
    using assms by (rule map_of_is_SomeI)
  then show ?thesis
    by (simp add: dataUtils_getPartyColor_def)
qed

lemma dataUtils_getPartyColor_unlisted:
  assumes "s \<notin> set (map fst getPartyColor_cases)"
  shows "dataUtils_getPartyColor (Val s) = ascii ''#808080''"
proof -
  have "map_of getPartyColor_cases s = None"
    using assms by (simp add: map_of_eq_None_iff)
  then show ?thesis
    by (simp add: dataUtils_getPartyColor_def)
qed

lemma partyColors_values: "list_all (\<lambda>entry. snd entry \<noteq> []) partyColors"
  by (simp add: partyColors_def ascii_def)

lemma policyService_getPartyColor_listed:
  assumes "(s, c) \<in> set partyColors"
  shows "policyService_getPartyColor (Val s) = JsString c"
proof -
  have "distinct (map fst partyColors)"
    by (simp add: partyColors_def)
  then have "map_of partyColors s = Some c"
    using assms by (rule map_of_is_SomeI)
  moreover have "c \<noteq> []"
    using partyColors_values assms by (auto simp: list_all_iff)
  ultimately show ?thesis
    by (simp add: policyService_getPartyColor_def ToString_def str_or_def)
qed

lemma policyService_getPartyColor_unlisted:
  assumes "s \<notin> set (map fst partyColors)" and "s \<notin> set objectPrototypeKeys"
  shows "policyService_getPartyColor (Val s) = JsString (ascii ''#808080'')"
proof -
  have "map_of partyColors s = None"
    using assms(1) by (simp add: map_of_eq_None_iff)
  then show ?thesis
    using assms(2) by (simp add: policyService_getPartyColor_def ToString_def)
qed

text \<open>
  Claim C6, evaluated where the code departs from it: the name "constructor" is not a key
  of the table of policyService, yet \<open>getPartyColor\<close> there does not return the gray
  \<open>#808080\<close> for it but the member of that name inherited from \<open>Object.prototype\<close>.
  (For the names outside \<open>objectPrototypeKeys\<close>, and for the function of dataUtils at every
  name, the four lemmas above give what the claim says.)
\<close>

theorem policyService_getPartyColor_constructor:
  "ascii ''constructor'' \<notin> set (map fst partyColors) \<and>
   policyService_getPartyColor (Val (ascii ''constructor'')) =
     ObjectPrototypeMember (ascii ''constructor'') \<and>
   dataUtils_getPartyColor (Val (ascii ''constructor'')) = ascii ''#808080''"
  by (simp add: policyService_getPartyColor_def partyColors_def ToString_def
      objectPrototypeKeys_def dataUtils_getPartyColor_def getPartyColor_cases_def ascii_def)

text \<open>
  Claim C10: the two colour functions differ. For Jiyu-Minshuto the function of dataUtils
  returns \<open>#555555\<close> and the one of policyService \<open>#E60012\<close>; Shaminto and Sanseito are
  keys of dataUtils only and Shakai-Minshuto is a key of policyService only; so a party of
  that name gets one colour in the Party model and another as the proposing party of a
  Policy.
\<close>

theorem getPartyColor_tables_differ:
  "dataUtils_getPartyColor (Val JiyuMinshuto) = ascii ''#555555'' \<and>
   policyService_getPartyColor (Val JiyuMinshuto) = JsString (ascii ''#E60012'') \<and>
   ascii ''#555555'' \<noteq> ascii ''#E60012'' \<and>
   set (map fst getPartyColor_cases) - set (map fst partyColors) = {Shaminto, Sanseito} \<and>
   set (map fst partyColors) - set (map fst getPartyColor_cases) = {ShakaiMinshuto} \<and>
   color (fst (toParty
       (doc\<lparr> party_doc_data := (party_doc_data doc)\<lparr> data_name := Val JiyuMinshuto \<rparr> \<rparr>))) =
     ascii ''#555555'' \<and>
   proposing_color (proposingParty (convertToPolicyObject r i
       (d\<lparr> PoliticalParties := Val [\<lparr> PartyName = Val JiyuMinshuto, Claims = c \<rparr>] \<rparr>))) =
     JsString (ascii ''#E60012'')"
  apply (intro conjI)
  subgoal by (simp add: dataUtils_getPartyColor_def getPartyColor_cases_def)
  subgoal by (simp add: policyService_getPartyColor_def partyColors_def ToString_def str_or_def ascii_def)
  subgoal by (simp add: ascii_def)
  subgoal by (simp add: getPartyColor_cases_def partyColors_def)
  subgoal by (simp add: getPartyColor_cases_def partyColors_def)
  subgoal by (simp add: toParty_def Let_def dataUtils_getPartyColor_def getPartyColor_cases_def)
  subgoal by (simp add: convertToPolicyObject_def Let_def arr_or_def policyService_getPartyColor_def
        partyColors_def ToString_def str_or_def ascii_def)
  done

section \<open>Support and oppose rates\<close>

lemma toParty_rates_sum:
  "party_supportRate (fst (toParty doc)) + party_opposeRate (fst (toParty doc)) = 100"
  by (simp add: toParty_def Let_def)

lemma Math_round_pair:
  fixes x y :: rat
  assumes "x + y = 100"
  shows "Math_round x + Math_round y = 100 \<or> Math_round x + Math_round y = 101"
proof -
  have y: "y = 100 - x"
    using assms by simp
  have "100 - x + 1 / 2 = (1 / 2 - x) + of_int 100"
    by simp
  then have "\<lfloor>100 - x + 1 / 2\<rfloor> = \<lfloor>1 / 2 - x\<rfloor> + 100"
    by (simp only: floor_add_int)
  then have "Math_round y = 100 + \<lfloor>1 / 2 - x\<rfloor>"
    by (simp add: Math_round_def y)
  moreover have "\<lfloor>x + 1 / 2\<rfloor> + \<lfloor>1 / 2 - x\<rfloor> = 0 \<or> \<lfloor>x + 1 / 2\<rfloor> + \<lfloor>1 / 2 - x\<rfloor> = 1"
    by linarith
  ultimately show ?thesis
    unfolding Math_round_def by linarith
qed

lemma convertToPolicyObject_rates_sum:
  assumes "0 < totalVotes (convertToPolicyObject r i d)"
  shows "supportRate (convertToPolicyObject r i d) + opposeRate (convertToPolicyObject r i d) = 100 \<or>
         supportRate (convertToPolicyObject r i d) + opposeRate (convertToPolicyObject r i d) = 101"
proof -
  define s where "s = num_or (SupportRate d) 50"
  define n where "n = num_or (NonSupportRate d) 50"
  have pos: "0 < s + n"
    using assms by (simp add: convertToPolicyObject_def Let_def s_def n_def)
  have "s / (s + n) * 100 + n / (s + n) * 100 = (s + n) / (s + n) * 100"
    by (simp only: add_divide_distrib distrib_right)
  also have "\<dots> = 100"
    using pos by simp
  finally have "s / (s + n) * 100 + n / (s + n) * 100 = 100" .
  then have "Math_round (s / (s + n) * 100) + Math_round (n / (s + n) * 100) = 100 \<or>
      Math_round (s / (s + n) * 100) + Math_round (n / (s + n) * 100) = 101"
    by (rule Math_round_pair)
  then show ?thesis
    using pos by (simp add: convertToPolicyObject_def Let_def s_def n_def)
qed

text \<open>
  Claim C2, evaluated where the code departs from it: a policy document with 1 supporting
  and 7 opposing votes has 8 votes in total, and its two rates, each rounded on its own,
  are 13 and 88, which sum to 101. (The party conversion takes the oppose rate as 100 minus
  the support rate, so there the sum is 100 for every document: \<open>toParty_rates_sum\<close>.
  For a policy the sum is 100 or 101: \<open>convertToPolicyObject_rates_sum\<close>.)
\<close>

theorem convertToPolicyObject_rates_1_7:
  "totalVotes (convertToPolicyObject r i (d\<lparr> SupportRate := Val 1, NonSupportRate := Val 7 \<rparr>)) = 8 \<and>
   supportRate (convertToPolicyObject r i (d\<lparr> SupportRate := Val 1, NonSupportRate := Val 7 \<rparr>)) = 13 \<and>
   opposeRate (convertToPolicyObject r i (d\<lparr> SupportRate := Val 1, NonSupportRate := Val 7 \<rparr>)) = 88"
  by (simp add: convertToPolicyObject_def Let_def num_or_def Math_round_def)

section \<open>The party cache\<close>

lemma find_SomeD: "find P xs = Some x \<Longrightarrow> P x \<and> x \<in> set xs"
  by (auto simp: find_Some_iff)

lemma toParty_id: "party_id (fst (toParty doc)) = party_doc_id doc"
  by (simp add: toParty_def Let_def)

text \<open>
  Claim C3 as stated fails: when the fetch of the first call fails, nothing is cached and
  the second call fetches again, so two calls on a freshly loaded module make two fetches.
\<close>

theorem processPartiesData_twice_failing:
  "fetches (snd (processPartiesData failing_collection
      (snd (processPartiesData failing_collection initial_state)))) = 2"
  by (simp add: processPartiesData_def initial_state_def failing_collection_def)

text \<open>
  Claim C3, amended: two consecutive calls that start with the cache unset and whose first
  fetch succeeds make exactly one fetch. The first call fetches, converts the documents and
  stores the list in the cache; the second returns that list and leaves the state, and with
  it the number of fetches, as it is.
\<close>

theorem processPartiesData_twice:
  assumes "cachedParties st = None" and "getDocs (fetches st) = Inr docs"
  shows "fst (processPartiesData getDocs st) = map (\<lambda>doc. fst (toParty doc)) docs \<and>
         cachedParties (snd (processPartiesData getDocs st)) =
           Some (fst (processPartiesData getDocs st)) \<and>
         fetches (snd (processPartiesData getDocs st)) = Suc (fetches st) \<and>
         processPartiesData getDocs (snd (processPartiesData getDocs st)) =
           (fst (processPartiesData getDocs st), snd (processPartiesData getDocs st))"
  using assms by (simp add: processPartiesData_def Let_def comp_def)

theorem processPartiesData_twice_witness:
  "fst (processPartiesData one_party_collection initial_state) = [fst (toParty komeito_snapshot)] \<and>
   fetches (snd (processPartiesData one_party_collection
      (snd (processPartiesData one_party_collection initial_state)))) = 1"
  using processPartiesData_twice [of initial_state one_party_collection "[komeito_snapshot]"]
  by (simp add: initial_state_def one_party_collection_def)

text \<open>
  Claim C7: \<open>getPartyById\<close> populates the cache first exactly when it is unset; it then
  returns nothing if and only if no party of the cache has the given id, and a party it
  returns is a party of the cache whose id is the given one.
\<close>

theorem getPartyById_result:
  "snd (getPartyById getDocs ident st) =
     (if cachedParties st = None then snd (processPartiesData getDocs st) else st) \<and>
   (fst (getPartyById getDocs ident st) = None \<longleftrightarrow>
      \<not> list_ex (\<lambda>party. party_id party = ident)
           (case cachedParties (snd (getPartyById getDocs ident st)) of
              Some cached \<Rightarrow> cached | None \<Rightarrow> [])) \<and>
   (\<forall>party. fst (getPartyById getDocs ident st) = Some party \<longrightarrow>
      party_id party = ident \<and>
      party \<in> set (case cachedParties (snd (getPartyById getDocs ident st)) of
                     Some cached \<Rightarrow> cached | None \<Rightarrow> []))"
proof (intro conjI allI impI)
  show "snd (getPartyById getDocs ident st) =
     (if cachedParties st = None then snd (processPartiesData getDocs st) else st)"
    by (simp add: getPartyById_def Let_def)
next
  show "fst (getPartyById getDocs ident st) = None \<longleftrightarrow>
      \<not> list_ex (\<lambda>party. party_id party = ident)
           (case cachedParties (snd (getPartyById getDocs ident st)) of
              Some cached \<Rightarrow> cached | None \<Rightarrow> [])"
    by (simp add: getPartyById_def Let_def find_None_iff list_ex_iff)
next
  fix party
  assume "fst (getPartyById getDocs ident st) = Some party"
  then have "find (\<lambda>party. party_id party = ident)
      (case cachedParties (snd (getPartyById getDocs ident st)) of
         Some cached \<Rightarrow> cached | None \<Rightarrow> []) = Some party"
    by (simp add: getPartyById_def Let_def)
  then show "party_id party = ident"
    and "party \<in> set (case cachedParties (snd (getPartyById getDocs ident st)) of
                        Some cached \<Rightarrow> cached | None \<Rightarrow> [])"
    by (rule find_SomeD [THEN conjunct1], rule find_SomeD [THEN conjunct2])
qed

theorem getPartyById_result_witness:
  "fst (getPartyById one_party_collection (ascii ''p1'') initial_state) =
     Some (fst (toParty komeito_snapshot)) \<and>
   fst (getPartyById one_party_collection (ascii ''p2'') initial_state) = None \<and>
   fetches (snd (getPartyById one_party_collection (ascii ''p1'') initial_state)) = 1"
proof -
  have cache: "cachedParties (snd (processPartiesData one_party_collection initial_state)) =
      Some [fst (toParty komeito_snapshot)]"
    and count: "fetches (snd (processPartiesData one_party_collection initial_state)) = 1"
    by (simp_all add: processPartiesData_def initial_state_def one_party_collection_def Let_def)
  have empty: "cachedParties initial_state = None"
    by (simp add: initial_state_def)
  have id1: "party_doc_id komeito_snapshot = ascii ''p1''"
    and id2: "party_doc_id komeito_snapshot \<noteq> ascii ''p2''"
    by (simp_all add: komeito_snapshot_def ascii_def)
  note p1 = getPartyById_result [of one_party_collection "ascii ''p1''" initial_state]
  note p2 = getPartyById_result [of one_party_collection "ascii ''p2''" initial_state]
  have s1: "snd (getPartyById one_party_collection (ascii ''p1'') initial_state) =
      snd (processPartiesData one_party_collection initial_state)"
    using p1 empty by simp
  have s2: "snd (getPartyById one_party_collection (ascii ''p2'') initial_state) =
      snd (processPartiesData one_party_collection initial_state)"
    using p2 empty by simp
  have "fst (getPartyById one_party_collection (ascii ''p1'') initial_state) \<noteq> None"
    using p1 by (simp add: s1 cache toParty_id id1)
  then obtain party where found:
    "fst (getPartyById one_party_collection (ascii ''p1'') initial_state) = Some party"
    by blast
  then have "party \<in> set [fst (toParty komeito_snapshot)]"
    using p1 by (simp add: s1 cache)
  then have a: "fst (getPartyById one_party_collection (ascii ''p1'') initial_state) =
      Some (fst (toParty komeito_snapshot))"
    using found by simp
  have b: "fst (getPartyById one_party_collection (ascii ''p2'') initial_state) = None"
    using p2 by (simp add: s2 cache toParty_id id2)
  show ?thesis
    using a b by (simp add: s1 count)
qed

section \<open>Pagination of the policy query\<close>

lemma fetchPolicies_hasMore_length:
  assumes "fst (fetchPoliciesWithFilterAndSort getDoc getDocs random
             categoryFilter partyFilter sortMethod searchTerm lastId limitCount out) = Inr page"
  shows "hasMore page \<longleftrightarrow> int (length (policies page)) = limitCount"
  using assms
  by (auto simp: fetchPoliciesWithFilterAndSort_def Let_def split: sum.splits)

lemma fetchPolicies_hasMore_blank_search:
  assumes "trim searchTerm = []"
    and "getDocs (buildConditions categoryFilter partyFilter sortMethod
            (fst (resolveCursor getDoc lastId)) limitCount) = Inr docs"
  shows "\<exists>page. fst (fetchPoliciesWithFilterAndSort getDoc getDocs random
             categoryFilter partyFilter sortMethod searchTerm lastId limitCount out) = Inr page \<and>
           (hasMore page \<longleftrightarrow> int (length docs) = limitCount)"
  using assms
  by (simp add: fetchPoliciesWithFilterAndSort_def Let_def)

text \<open>
  Claim C1, evaluated where the code departs from it: with page size 1 the query returns
  exactly one document, whose title and description do not contain the search term "x";
  the filtered list is then empty and \<open>hasMore\<close>, which the code takes from the length of
  the filtered list, is false, although one raw document for a page size of one was
  returned. With an empty search term the same database gives \<open>hasMore\<close> true. (Without
  a search term the flag is as the claim says: \<open>fetchPolicies_hasMore_blank_search\<close>.)
\<close>

theorem fetchPolicies_hasMore_after_search:
  "one_policy_query (buildConditions (ascii ''all'') (ascii ''all'') (ascii ''supportDesc'') [] 1) =
     Inr [abc_snapshot] \<and>
   fetchPoliciesWithFilterAndSort no_document one_policy_query no_random
       (ascii ''all'') (ascii ''all'') (ascii ''supportDesc'') (ascii ''x'') None 1 [] =
     (Inr \<lparr> policies = [], lastDocumentId = Some (ascii ''p1''), hasMore = False \<rparr>, []) \<and>
   (case fst (fetchPoliciesWithFilterAndSort no_document one_policy_query no_random
       (ascii ''all'') (ascii ''all'') (ascii ''supportDesc'') [] None 1 []) of
      Inr page \<Rightarrow> hasMore page \<and> length (policies page) = 1
    | Inl err \<Rightarrow> False)"
proof -
  have conv: "title (convertToPolicyObject r i (policy_doc_data abc_snapshot)) = ascii ''abc''"
     "description (convertToPolicyObject r i (policy_doc_data abc_snapshot)) = ascii ''def''" for r i
    by (simp_all add: convertToPolicyObject_def Let_def abc_snapshot_def str_or_def ascii_def)
  have nomatch:
    "\<not> matchesSearch (ascii ''x'') (convertToPolicyObject r i (policy_doc_data abc_snapshot))" for r i
    by (simp add: matchesSearch_def Let_def conv) (simp add: ascii_def toLowerCase_def)
  have t: "trim (ascii ''x'') \<noteq> []"
    by (simp add: trim_def ascii_def isWhiteSpace_def)
  have blank: "trim [] = []"
    by (simp add: trim_def)
  have searched:
    "fetchPoliciesWithFilterAndSort no_document one_policy_query no_random
       (ascii ''all'') (ascii ''all'') (ascii ''supportDesc'') (ascii ''x'') None 1 [] =
     (Inr \<lparr> policies = [], lastDocumentId = Some (ascii ''p1''), hasMore = False \<rparr>, [])"
    by (simp add: fetchPoliciesWithFilterAndSort_def Let_def one_policy_query_def no_document_def
        resolveCursor_def nomatch t enumerate_eq_zip)
       (simp add: abc_snapshot_def)
  have unsearched:
    "(case fst (fetchPoliciesWithFilterAndSort no_document one_policy_query no_random
       (ascii ''all'') (ascii ''all'') (ascii ''supportDesc'') [] None 1 []) of
      Inr page \<Rightarrow> hasMore page \<and> length (policies page) = 1
    | Inl err \<Rightarrow> False)"
    by (simp add: fetchPoliciesWithFilterAndSort_def Let_def one_policy_query_def blank
        enumerate_eq_zip)
  show ?thesis
    using searched unsearched by (simp add: one_policy_query_def)
qed

section \<open>Errors of the database\<close>

text \<open>
  Claim C4: when the query of \<open>fetchPoliciesWithFilterAndSort\<close> fails, the function logs
  the error and raises it again; when the fetch of \<open>processPartiesData\<close> fails, the
  function logs the error, returns the empty list and leaves the cache unset, which is
  also what it returns for a collection without documents.
\<close>

theorem fetch_errors_raised_or_swallowed:
  assumes "getDocs (buildConditions categoryFilter partyFilter sortMethod
             (fst (resolveCursor getDoc lastId)) limitCount) = Inl err"
    and "cachedParties st = None"
    and "failingDocs (fetches st) = Inl err'"
    and "emptyDocs (fetches st) = Inr []"
  shows "fetchPoliciesWithFilterAndSort getDoc getDocs random
           categoryFilter partyFilter sortMethod searchTerm lastId limitCount out =
           (Inl err, out @ snd (resolveCursor getDoc lastId) @ [ErrorPolicyFetch err]) \<and>
         processPartiesData failingDocs st =
           ([], st\<lparr> console := console st @ [ErrorPartiesFetch err'],
                    fetches := Suc (fetches st) \<rparr>) \<and>
         cachedParties (snd (processPartiesData failingDocs st)) = None \<and>
         fst (processPartiesData failingDocs st) = fst (processPartiesData emptyDocs st)"
  using assms
  by (simp add: fetchPoliciesWithFilterAndSort_def processPartiesData_def Let_def)

theorem fetch_errors_raised_or_swallowed_witness:
  "fetchPoliciesWithFilterAndSort failing_document failing_query no_random
       (ascii ''all'') (ascii ''all'') (ascii ''supportDesc'') [] (Some (ascii ''p0'')) 5 [] =
     (Inl unavailable, [ErrorDocumentFetch unavailable, ErrorPolicyFetch unavailable]) \<and>
   processPartiesData failing_collection initial_state =
     ([], \<lparr> cachedParties = None, console = [ErrorPartiesFetch unavailable], fetches = 1 \<rparr>) \<and>
   fst (processPartiesData empty_collection initial_state) = []"
proof -
  have cursor: "resolveCursor failing_document (Some (ascii ''p0'')) =
      ([], [ErrorDocumentFetch unavailable])"
    by (simp add: resolveCursor_def failing_document_def ascii_def)
  have init: "cachedParties initial_state = None" "fetches initial_state = 0"
    "console initial_state = []"
    by (simp_all add: initial_state_def)
  have e: "fst (processPartiesData empty_collection
      \<lparr> cachedParties = None, console = [], fetches = 0 \<rparr>) = []"
    by (simp add: processPartiesData_def empty_collection_def)
  show ?thesis
    using fetch_errors_raised_or_swallowed [of failing_query "ascii ''all''" "ascii ''all''"
        "ascii ''supportDesc''" failing_document "Some (ascii ''p0'')" 5 unavailable
        initial_state failing_collection unavailable empty_collection no_random "[]" "[]"]
    by (simp add: cursor init failing_query_def failing_collection_def empty_collection_def)
       (simp add: initial_state_def e)
qed

section \<open>Defaults of the conversions\<close>

lemma floor_rat_numeral:
  "\<lfloor>(numeral a :: rat) / numeral b\<rfloor> = numeral a div numeral b"
  using floor_divide_of_int_eq [of "numeral a" "numeral b", where ?'a = rat] by simp

text \<open>
  Claim C5: a field that is missing from the document gets its default. For a policy:
  the title "unknown title", 50 and 50 for the rates when both counts are missing, and
  the defaults of description, category, affected fields, status, proposed date, key
  points, the two impacts, the parties and the proposing party. For a party: 50 and 50
  and no votes when both counts are missing, no members, no key policies, and the
  generated description.
\<close>

theorem conversion_defaults_missing:
  "title (convertToPolicyObject r i (d\<lparr> Title := Undefined \<rparr>)) = FumeiNaTitle \<and>
   supportRate (convertToPolicyObject r i
       (d\<lparr> SupportRate := Undefined, NonSupportRate := Undefined \<rparr>)) = 50 \<and>
   opposeRate (convertToPolicyObject r i
       (d\<lparr> SupportRate := Undefined, NonSupportRate := Undefined \<rparr>)) = 50 \<and>
   description (convertToPolicyObject r i (d\<lparr> Description := Undefined \<rparr>)) = SetsumeiNashi \<and>
   category (convertToPolicyObject r i (d\<lparr> AffectedFields := Undefined \<rparr>)) = SonoTa \<and>
   affectedFields (convertToPolicyObject r i (d\<lparr> AffectedFields := Undefined \<rparr>)) = [] \<and>
   status (convertToPolicyObject r i (d\<lparr> Status := Undefined \<rparr>)) = ShingiChu \<and>
   proposedDate (convertToPolicyObject r i (d\<lparr> ProposedDate := Undefined \<rparr>)) = Year2023 \<and>
   keyPoints (convertToPolicyObject r i (d\<lparr> KeyPoints := Undefined \<rparr>)) = [] \<and>
   economicImpact (convertToPolicyObject r i (d\<lparr> EconomicImpact := Undefined \<rparr>)) = [] \<and>
   lifeImpact (convertToPolicyObject r i (d\<lparr> LifeImpact := Undefined \<rparr>)) = [] \<and>
   politicalParties (convertToPolicyObject r i (d\<lparr> PoliticalParties := Undefined \<rparr>)) = [] \<and>
   proposingParty (convertToPolicyObject r i (d\<lparr> PoliticalParties := Undefined \<rparr>)) =
     \<lparr> proposing_name = Val Fumei, proposing_color = JsString (ascii ''#808080'') \<rparr> \<and>
   party_supportRate (fst (toParty (doc\<lparr> party_doc_data :=
       (party_doc_data doc)\<lparr> supportCount := Undefined, oppositionCount := Undefined \<rparr> \<rparr>))) = 50 \<and>
   party_opposeRate (fst (toParty (doc\<lparr> party_doc_data :=
       (party_doc_data doc)\<lparr> supportCount := Undefined, oppositionCount := Undefined \<rparr> \<rparr>))) = 50 \<and>
   party_totalVotes (fst (toParty (doc\<lparr> party_doc_data :=
       (party_doc_data doc)\<lparr> supportCount := Undefined, oppositionCount := Undefined \<rparr> \<rparr>))) = 0 \<and>
   members (fst (toParty (doc\<lparr> party_doc_data :=
       (party_doc_data doc)\<lparr> memberCount := Undefined \<rparr> \<rparr>))) = 0 \<and>
   keyPolicies (fst (toParty (doc\<lparr> party_doc_data :=
       (party_doc_data doc)\<lparr> majorPolicies := Undefined \<rparr> \<rparr>))) = [] \<and>
   party_description (fst (toParty (doc\<lparr> party_doc_data :=
       (party_doc_data doc)\<lparr> overview := Undefined \<rparr> \<rparr>))) =
     ToString (data_name (party_doc_data doc)) @ DescriptionTail"
  apply (intro conjI)
  apply (simp_all add: convertToPolicyObject_def toParty_def Let_def str_or_def num_or_def arr_or_def
      optional_first_def Math_round_def floor_rat_numeral)
  done

text \<open>
  Claim C9: the defaults are taken for every falsy value, not only for a missing field. A
  policy document whose title is the empty string is converted as if it had no title, to
  the title "unknown title"; a support count of 0 is replaced by 50 before the rates are
  computed, so the conversion is that of a document with a support count of 50; and a
  party document whose overview is the empty string gets the generated description, as
  one without an overview does.
\<close>

theorem conversion_defaults_falsy:
  "title (convertToPolicyObject r i (d\<lparr> Title := Val [] \<rparr>)) = FumeiNaTitle \<and>
   convertToPolicyObject r i (d\<lparr> Title := Val [] \<rparr>) =
     convertToPolicyObject r i (d\<lparr> Title := Undefined \<rparr>) \<and>
   totalVotes (convertToPolicyObject r i (d\<lparr> SupportRate := Val 0 \<rparr>)) =
     50 + num_or (NonSupportRate d) 50 \<and>
   convertToPolicyObject r i (d\<lparr> SupportRate := Val 0 \<rparr>) =
     convertToPolicyObject r i (d\<lparr> SupportRate := Val 50 \<rparr>) \<and>
   party_description (fst (toParty (doc\<lparr> party_doc_data :=
       (party_doc_data doc)\<lparr> overview := Val [] \<rparr> \<rparr>))) =
     ToString (data_name (party_doc_data doc)) @ DescriptionTail \<and>
   toParty (doc\<lparr> party_doc_data := (party_doc_data doc)\<lparr> overview := Val [] \<rparr> \<rparr>) =
     toParty (doc\<lparr> party_doc_data := (party_doc_data doc)\<lparr> overview := Undefined \<rparr> \<rparr>)"
  apply (intro conjI)
  apply (simp_all add: convertToPolicyObject_def toParty_def Let_def str_or_def num_or_def)
  done

section \<open>The route table\<close>

lemma rankRouteBranches_AppContent:
  "rankRouteBranches (AppContent authenticated) =
     [\<lparr> route_path = ascii ''/admin/party/:partyId/*'',
        route_element = ProtectedAdminRoute authenticated PartyAdminLayout \<rparr>,
      \<lparr> route_path = ascii ''/admin/login'', route_element = LoginPage \<rparr>,
      \<lparr> route_path = ascii ''/admin'', route_element = Navigate (ascii ''/admin/login'') \<rparr>,
      \<lparr> route_path = ascii ''/'', route_element = Navigate (ascii ''/admin/login'') \<rparr>,
      \<lparr> route_path = ascii ''*'', route_element = Navigate (ascii ''/'') \<rparr>]"
proof -
  have scores:
    "computeScore (ascii ''/'') = 4"
    "computeScore (ascii ''/admin/login'') = 24"
    "computeScore (ascii ''/admin/party/:partyId/*'') = 27"
    "computeScore (ascii ''/admin'') = 13"
    "computeScore (ascii ''*'') = - 1"
    by code_simp+
  show ?thesis
    by (simp add: rankRouteBranches_def AppContent_def scores)
qed

lemma splat_matches: "matchPath (ascii ''*'') (47 # rest)"
proof -
  have "compilePath (ascii ''*'') = ([], True)"
    by code_simp
  then show ?thesis
    by (simp add: matchPath_def)
qed

lemma matches_at_login:
  "\<not> matchPath (ascii ''/admin/party/:partyId/*'') (ascii ''/admin/login'')"
  "matchPath (ascii ''/admin/login'') (ascii ''/admin/login'')"
  by code_simp+

lemma matches_at_root:
  "\<not> matchPath (ascii ''/admin/party/:partyId/*'') (ascii ''/'')"
  "\<not> matchPath (ascii ''/admin/login'') (ascii ''/'')"
  "\<not> matchPath (ascii ''/admin'') (ascii ''/'')"
  "matchPath (ascii ''/'') (ascii ''/'')"
  by code_simp+

lemma paths_nonempty: "ascii ''/admin/login'' \<noteq> []" "ascii ''/'' \<noteq> []"
  by (simp_all add: ascii_def)

lemma resolve_login: "resolve (Suc n) authenticated (ascii ''/admin/login'') = Some LoginPageView"
  by (simp add: matchRoutes_def rankRouteBranches_AppContent matches_at_login paths_nonempty)

lemma resolve_root: "resolve (Suc (Suc n)) authenticated (ascii ''/'') = Some LoginPageView"
  by (subst resolve.simps) (simp add: matchRoutes_def rankRouteBranches_AppContent matches_at_root paths_nonempty resolve_login del: resolve.simps)

text \<open>
  Claim C8: every pathname resolves to the login page, after at most two redirects, except
  that a pathname matching \<open>/admin/party/:partyId/*\<close> shows the admin layout when
  the visitor is authenticated. So \<open>/\<close>, \<open>/admin\<close> and every pathname that no
  route recognises end at login, and so does an unauthenticated visit of
  \<open>/admin/party/:partyId/*\<close>.
\<close>

theorem routes_resolve:
  "resolve (Suc (Suc (Suc n))) authenticated (47 # rest) =
     Some (if authenticated \<and> matchPath (ascii ''/admin/party/:partyId/*'') (47 # rest)
           then PartyAdminLayoutView else LoginPageView)"
  by (subst resolve.simps)
     (simp add: matchRoutes_def rankRouteBranches_AppContent ProtectedAdminRoute_def splat_matches resolve_login
        resolve_root del: resolve.simps)


theorem routes_resolve_witness:
  "resolve 3 False (ascii ''/'') = Some LoginPageView \<and>
   resolve 3 False (ascii ''/admin'') = Some LoginPageView \<and>
   resolve 3 False (ascii ''/nowhere'') = Some LoginPageView \<and>
   resolve 3 True (ascii ''/nowhere'') = Some LoginPageView \<and>
   resolve 3 False (ascii ''/admin/party/123/x'') = Some LoginPageView \<and>
   resolve 3 True (ascii ''/admin/party/123/x'') = Some PartyAdminLayoutView"
proof -
  have paths:
    "ascii ''/'' = 47 # []"
    "ascii ''/admin'' = 47 # ascii ''admin''"
    "ascii ''/nowhere'' = 47 # ascii ''nowhere''"
    "ascii ''/admin/party/123/x'' = 47 # ascii ''admin/party/123/x''"
    by (simp_all add: ascii_def)
  have matches:
    "\<not> matchPath (ascii ''/admin/party/:partyId/*'') (ascii ''/'')"
    "\<not> matchPath (ascii ''/admin/party/:partyId/*'') (ascii ''/admin'')"
    "\<not> matchPath (ascii ''/admin/party/:partyId/*'') (ascii ''/nowhere'')"
    "matchPath (ascii ''/admin/party/:partyId/*'') (ascii ''/admin/party/123/x'')"
    by code_simp+
  have three: "(3::nat) = Suc (Suc (Suc 0))"
    by simp
  show ?thesis
    unfolding three
    using routes_resolve [of 0 False "[]"] routes_resolve [of 0 False "ascii ''admin''"]
      routes_resolve [of 0 False "ascii ''nowhere''"] routes_resolve [of 0 True "ascii ''nowhere''"]
      routes_resolve [of 0 False "ascii ''admin/party/123/x''"]
      routes_resolve [of 0 True "ascii ''admin/party/123/x''"]
    by (simp add: paths [symmetric] matches del: resolve.simps)
qed

end
